theory Spec2Isabelle
  imports Main
begin

section \<open>The transfer view of App.tsx\<close>

text \<open>
  The repository is one React component, \<open>App\<close> (src/App.tsx). Its local state is six
  \<open>useState\<close> cells; its behaviour is the event handlers attached to the rendered
  controls and the asynchronous function \<open>fetchTransfers\<close>. The embedding keeps the
  state as a record, each handler as a function from the state to the new state and the
  effects it issues (network request, wallet call, console output), and the rendered
  output as a record of what each conditional block of the JSX shows.

  Values follow the TypeScript declarations. A \<open>number\<close> field (the page counters, the
  epoch timestamp) holds an integer-valued double, modelled as the \<open>int\<close> it denotes:
  the sums computed on it are rounded to the nearest double, as the language rounds them,
  and it is printed as \<open>Number.prototype.toString\<close> prints it. Non-integral and
  non-finite numbers are outside the model. A \<open>string\<close> is a \<open>string\<close>.
\<close>

subsection \<open>Data\<close>

text \<open>\<open>type Transfer = { from, to, value, timestamp }\<close> (lines 5-10). The field names
  \<open>from\<close>, \<open>to\<close> and \<open>value\<close> are reserved words here, hence the suffixes.\<close>

record transfer =
  from_addr :: string
  to_addr :: string
  value_str :: string
  timestamp :: int

text \<open>The object held by the \<open>pagination\<close> state cell (lines 17-22).\<close>

record pagination_state =
  page :: int
  limit :: int
  total :: int
  pages :: int

text \<open>The initial value of the cell, and the literal used again at lines 55-60.\<close>

definition default_pagination :: pagination_state where
  "default_pagination = \<lparr>page = 1, limit = 10, total = 0, pages = 1\<rparr>"

text \<open>\<open>useState<'all' | 'in' | 'out'>\<close> (line 23).\<close>

datatype filter_value = FilterAll | FilterIn | FilterOut

text \<open>The string a filter value is in the source: the literal itself.\<close>

fun filter_string :: "filter_value \<Rightarrow> string" where
  "filter_string FilterAll = ''all''"
| "filter_string FilterIn = ''in''"
| "filter_string FilterOut = ''out''"

text \<open>The six state cells of the component (lines 16-23 and 36-38).\<close>

record view_state =
  transfers :: "transfer list"
  pagination :: pagination_state
  filter_sel :: filter_value
  isLoading :: bool
  fetchError :: string
  selectedTransfer :: "transfer option"

definition initial_view :: view_state where
  "initial_view =
     \<lparr>transfers = [], pagination = default_pagination, filter_sel = FilterAll,
      isLoading = False, fetchError = [], selectedTransfer = None\<rparr>"

text \<open>What \<open>useAccount()\<close> gives the component: owned by the wallet library, only read
  here. \<open>address\<close> is \<open>undefined\<close> (\<open>None\<close>) when no account is known.\<close>

datatype account_status = Connected | Connecting | Reconnecting | Disconnected

record account =
  status :: account_status
  address :: "string option"
  chainId :: "int option"

subsection \<open>Thrown values, the response and its JSON body\<close>

text \<open>
  The \<open>catch\<close> clause (line 61) receives \<open>err: unknown\<close> and only asks whether it is an
  \<open>Error\<close>, reading its \<open>message\<close> if so. The Errors that reach it are the one thrown
  at line 52, whose message is the literal written there, and those of the platform
  (the rejections of \<open>fetch\<close> and of \<open>response.json()\<close>, the \<open>TypeError\<close> of a
  property read), whose message is the engine's description of the failure. Such a
  message is never the empty string.
\<close>

typedef message = "{s :: string. s \<noteq> []}"
  morphisms message_text Message
  by (rule exI [of _ "''x''"]) simp

datatype thrown = ErrorObject message | NonError

text \<open>
  \<open>data\<close> is the untyped result of \<open>response.json()\<close>. The code reads two
  properties of it, each through \<open>||\<close>. A property is absent (\<open>undefined\<close>), one of
  the falsy JSON values, or a value of the shape the state cell is declared with (an
  array, an object: always truthy). Truthy values of any other shape are excluded by
  the declared types of the cells and are outside the model.
\<close>

datatype 'a js_property =
    JsUndefined
  | JsNull
  | JsFalse
  | JsZero
  | JsEmptyString
  | JsObject 'a

fun truthy :: "'a js_property \<Rightarrow> bool" where
  "truthy (JsObject x) = True"
| "truthy _ = False"

text \<open>The operator \<open>||\<close> with a default on its right: \<open>p || d\<close>.\<close>

fun js_or :: "'a js_property \<Rightarrow> 'a \<Rightarrow> 'a" where
  "js_or (JsObject x) d = x"
| "js_or _ d = d"

text \<open>
  The parsed body. Reading a property of \<open>null\<close> throws a \<open>TypeError\<close>; of any other
  JSON value (an object, an array, a number, a string, a boolean) it yields the
  property or \<open>undefined\<close>, so such a body is its two properties.
\<close>

datatype json_body =
    BodyNull
  | BodyValue "transfer list js_property" "pagination_state js_property"

text \<open>The outcome of \<open>await response.json()\<close>, and of \<open>await fetch(...)\<close> with the
  response's \<open>ok\<close> flag (true exactly for the statuses 200-299).\<close>

datatype json_outcome = JsonRejected thrown | JsonResolved json_body

datatype fetch_outcome = FetchRejected thrown | FetchResolved bool json_outcome

text \<open>What a handler does besides updating the state.\<close>

datatype effect =
    HttpGet string
  | ConsoleError string thrown
  | WalletDisconnect
  | WalletConnect string

subsection \<open>Numbers: rounding to a double, Number.prototype.toString\<close>

text \<open>The number of binary digits of a positive integer.\<close>

function bit_length :: "int \<Rightarrow> nat" where
  "bit_length n = (if n \<le> 0 then 0 else Suc (bit_length (n div 2)))"
  by pat_completeness auto
termination
  by (relation "measure nat") auto

declare bit_length.simps [simp del]

text \<open>
  The double nearest to an integer, as the \<open>+\<close> and \<open>-\<close> of lines 169 and 178
  round their exact result: an integer of magnitude up to \<open>2^53\<close> is a double as it is;
  a larger one keeps its 53 leading binary digits, rounded to nearest and, half way, to
  the even one. (A magnitude of \<open>2^1024\<close> and more would be \<open>Infinity\<close>; adding or
  subtracting 1 never takes a double there.)
\<close>

definition double_round :: "int \<Rightarrow> int" where
  "double_round x =
     (if \<bar>x\<bar> \<le> 2 ^ 53 then x
      else (let e = bit_length \<bar>x\<bar> - 53;
                q = \<bar>x\<bar> div 2 ^ e;
                r = \<bar>x\<bar> mod 2 ^ e;
                q' = (if r > 2 ^ (e - 1) \<or> (r = 2 ^ (e - 1) \<and> odd q) then q + 1 else q)
            in sgn x * (q' * 2 ^ e)))"

text \<open>The character of a digit below ten, and the decimal digits of an integer that is
  not negative.\<close>

definition digit_char :: "nat \<Rightarrow> char" where
  "digit_char d = ''0123456789'' ! d"

function decimal :: "int \<Rightarrow> string" where
  "decimal n =
     (if n < 10 then [digit_char (nat n)]
      else decimal (n div 10) @ [digit_char (nat (n mod 10))])"
  by pat_completeness auto
termination
  by (relation "measure nat") auto

declare decimal.simps [simp del]

text \<open>
  \<open>Number.prototype.toString\<close> prints the decimal number with the fewest significant
  digits that still rounds to the double; among several of that length the one nearest
  to the double, and of two equally near the one whose last digit is even. For a
  positive integer \<open>x\<close> and \<open>e\<close> trailing zeros the candidates are the multiples of
  \<open>10^e\<close> just below and just above \<open>x\<close>.
\<close>

definition shortest_at :: "nat \<Rightarrow> int \<Rightarrow> int option" where
  "shortest_at e x =
     (let p = 10 ^ e;
          lo = (x div p) * p;
          hi = lo + p;
          okl = (double_round lo = x);
          okh = (double_round hi = x)
      in if okl \<and> okh
         then Some (if x - lo < hi - x then lo
                    else if hi - x < x - lo then hi
                    else if even (lo div p) then lo else hi)
         else if okl then Some lo
         else if okh then Some hi
         else None)"

text \<open>The search goes from the most trailing zeros (one significant digit) down to none,
  where \<open>x\<close> itself is a candidate.\<close>

fun shortest_from :: "nat \<Rightarrow> int \<Rightarrow> int" where
  "shortest_from e x =
     (case shortest_at e x of
        Some c \<Rightarrow> c
      | None \<Rightarrow> (if e = 0 then x else shortest_from (e - 1) x))"

declare shortest_from.simps [simp del]

text \<open>From \<open>10^21\<close> on the number is printed with an exponent: the first significant
  digit, the others after a point if there are any, then \<open>e+\<close> and the exponent.\<close>

definition exponent_form :: "string \<Rightarrow> string" where
  "exponent_form ds =
     (case rev (dropWhile (\<lambda>c. c = CHR ''0'') (rev ds)) of
        [] \<Rightarrow> []
      | [d] \<Rightarrow> d # ''e+'' @ decimal (int (length ds) - 1)
      | d # rest \<Rightarrow> d # ''.'' @ rest @ ''e+'' @ decimal (int (length ds) - 1))"

definition positive_toString :: "int \<Rightarrow> string" where
  "positive_toString x =
     (let c = shortest_from (length (decimal x) - 1) x
      in if c < 10 ^ 21 then decimal c else exponent_form (decimal c))"

definition number_toString :: "int \<Rightarrow> string" where
  "number_toString i =
     (if i = 0 then ''0''
      else if i < 0 then CHR ''-'' # positive_toString (- i)
      else positive_toString i)"

subsection \<open>URL and URLSearchParams\<close>

text \<open>
  A URL as the code uses it: the text given to \<open>new URL\<close> and the list of query
  pairs behind \<open>url.searchParams\<close>. The text is the fixed prefix followed by the account
  address (\<open>0x\<close> and hexadecimal digits) or the word \<open>undefined\<close>, so it has no query
  or fragment of its own and the parser leaves it as it is.
\<close>

record url =
  url_base :: string
  searchParams :: "(string \<times> string) list"

definition new_URL :: "string \<Rightarrow> url" where
  "new_URL s = \<lparr>url_base = s, searchParams = []\<rparr>"

text \<open>\<open>URLSearchParams.set\<close>: the first pair of that name takes the value and the other
  pairs of that name are removed; with no such pair, the pair is appended.\<close>

fun params_set :: "string \<Rightarrow> string \<Rightarrow> (string \<times> string) list \<Rightarrow> (string \<times> string) list" where
  "params_set name v [] = [(name, v)]"
| "params_set name v ((k, x) # ps) =
     (if k = name then (name, v) # filter (\<lambda>kv. fst kv \<noteq> name) ps
      else (k, x) # params_set name v ps)"

definition searchParams_set :: "string \<Rightarrow> string \<Rightarrow> url \<Rightarrow> url" where
  "searchParams_set name v u = u\<lparr>searchParams := params_set name v (searchParams u)\<rparr>"

text \<open>\<open>URLSearchParams.get\<close>: the value of the first pair of that name.\<close>

definition searchParams_get :: "string \<Rightarrow> url \<Rightarrow> string option" where
  "searchParams_get name u = map_of (searchParams u) name"

text \<open>The form-urlencoded serialiser behind \<open>url.toString()\<close>: letters, digits and
  \<open>* - . _\<close> stay, a space becomes \<open>+\<close>, every other byte is percent-encoded.\<close>

definition hex_digit :: "nat \<Rightarrow> char" where
  "hex_digit d = ''0123456789ABCDEF'' ! d"

definition urlencode_byte :: "char \<Rightarrow> string" where
  "urlencode_byte c =
     (let n = (of_char c :: nat) in
      if (48 \<le> n \<and> n \<le> 57) \<or> (65 \<le> n \<and> n \<le> 90) \<or> (97 \<le> n \<and> n \<le> 122)
         \<or> n = 42 \<or> n = 45 \<or> n = 46 \<or> n = 95
      then [c]
      else if n = 32 then ''+''
      else [CHR ''%'', hex_digit (n div 16), hex_digit (n mod 16)])"

definition urlencode :: "string \<Rightarrow> string" where
  "urlencode s = concat (map urlencode_byte s)"

fun serialize_params :: "(string \<times> string) list \<Rightarrow> string" where
  "serialize_params [] = []"
| "serialize_params [(k, x)] = urlencode k @ ''='' @ urlencode x"
| "serialize_params ((k, x) # ps) = urlencode k @ ''='' @ urlencode x @ ''&'' @ serialize_params ps"

definition url_toString :: "url \<Rightarrow> string" where
  "url_toString u =
     (if searchParams u = [] then url_base u
      else url_base u @ ''?'' @ serialize_params (searchParams u))"

subsection \<open>The state setters\<close>

definition setTransfers :: "transfer list \<Rightarrow> view_state \<Rightarrow> view_state" where
  "setTransfers ts v = v\<lparr>transfers := ts\<rparr>"

definition setPagination :: "pagination_state \<Rightarrow> view_state \<Rightarrow> view_state" where
  "setPagination p v = v\<lparr>pagination := p\<rparr>"

text \<open>\<open>setPagination(prev => ...)\<close>: the updater form.\<close>

definition setPagination_with :: "(pagination_state \<Rightarrow> pagination_state) \<Rightarrow> view_state \<Rightarrow> view_state" where
  "setPagination_with f v = v\<lparr>pagination := f (pagination v)\<rparr>"

definition setFilter :: "filter_value \<Rightarrow> view_state \<Rightarrow> view_state" where
  "setFilter f v = v\<lparr>filter_sel := f\<rparr>"

definition setIsLoading :: "bool \<Rightarrow> view_state \<Rightarrow> view_state" where
  "setIsLoading b v = v\<lparr>isLoading := b\<rparr>"

definition setFetchError :: "string \<Rightarrow> view_state \<Rightarrow> view_state" where
  "setFetchError e v = v\<lparr>fetchError := e\<rparr>"

definition setSelectedTransfer :: "transfer option \<Rightarrow> view_state \<Rightarrow> view_state" where
  "setSelectedTransfer t v = v\<lparr>selectedTransfer := t\<rparr>"

subsection \<open>fetchTransfers (lines 40-67)\<close>

text \<open>Line 44: the template literal. An \<open>undefined\<close> address prints as that word.\<close>

definition transfers_endpoint :: "account \<Rightarrow> string" where
  "transfers_endpoint a =
     ''http://localhost:3001/api/transfers/'' @ (case address a of None \<Rightarrow> ''undefined'' | Some x \<Rightarrow> x)"

text \<open>Lines 44-49: the URL built from the pagination and the filter of the current
  render.\<close>

definition request_url :: "account \<Rightarrow> view_state \<Rightarrow> url" where
  "request_url a v =
     (let u0 = new_URL (transfers_endpoint a);
          u1 = searchParams_set ''page'' (number_toString (page (pagination v))) u0;
          u2 = searchParams_set ''limit'' (number_toString (limit (pagination v))) u1
      in if filter_sel v \<noteq> FilterAll
         then searchParams_set ''type'' (filter_string (filter_sel v)) u2
         else u2)"

text \<open>
  The part that runs when the button is clicked, up to the first \<open>await\<close>: the two
  setters of lines 41-42, then the request of line 51.
\<close>

definition fetchTransfers_begin :: "account \<Rightarrow> view_state \<Rightarrow> view_state \<times> effect list" where
  "fetchTransfers_begin a v =
     (let v1 = setIsLoading True v;
          v2 = setFetchError [] v1
      in (v2, [HttpGet (url_toString (request_url a v))]))"

text \<open>Lines 51-53: what the two awaits hand to the rest of the \<open>try\<close> block, or the
  value thrown into the \<open>catch\<close>.\<close>

fun await_data :: "fetch_outcome \<Rightarrow> thrown + json_body" where
  "await_data (FetchRejected e) = Inl e"
| "await_data (FetchResolved ok j) =
     (if \<not> ok then Inl (ErrorObject (Message ''Network response was not ok''))
      else (case j of JsonRejected e \<Rightarrow> Inl e | JsonResolved d \<Rightarrow> Inr d))"

text \<open>The \<open>TypeError\<close> of reading \<open>transfers\<close> of \<open>null\<close> (the wording is the
  engine's; this is V8's).\<close>

definition null_property_error :: thrown where
  "null_property_error =
     ErrorObject (Message ''Cannot read properties of null (reading 'transfers')'')"

text \<open>Line 62.\<close>

fun error_text :: "thrown \<Rightarrow> string" where
  "error_text (ErrorObject m) = message_text m"
| "error_text NonError = ''Unknown error''"

text \<open>Lines 61-63: the \<open>catch\<close> clause.\<close>

definition catch_clause :: "thrown \<Rightarrow> view_state \<Rightarrow> view_state \<times> effect list" where
  "catch_clause e v = (setFetchError (error_text e) v, [ConsoleError ''Failed to fetch transfers:'' e])"

text \<open>Lines 54-60: the two replacements.\<close>

definition store_data :: "json_body \<Rightarrow> view_state \<Rightarrow> view_state \<times> effect list" where
  "store_data d v =
     (case d of
        BodyNull \<Rightarrow> catch_clause null_property_error v
      | BodyValue tf pf \<Rightarrow>
          (setPagination (js_or pf \<lparr>page = 1, limit = 10, total = 0, pages = 1\<rparr>)
             (setTransfers (js_or tf []) v), []))"

text \<open>The part that runs when the request settles: the rest of the \<open>try\<close>, the
  \<open>catch\<close>, and the \<open>finally\<close> of lines 64-66 after either.\<close>

definition fetchTransfers_settle :: "fetch_outcome \<Rightarrow> view_state \<Rightarrow> view_state \<times> effect list" where
  "fetchTransfers_settle outcome v =
     (let (v1, fx) = (case await_data outcome of
                        Inl e \<Rightarrow> catch_clause e v
                      | Inr d \<Rightarrow> store_data d v)
      in (setIsLoading False v1, fx))"

text \<open>One whole invocation with no other event in between. The network is a function
  from the requested URL to the outcome of the request.\<close>

definition fetchTransfers :: "(string \<Rightarrow> fetch_outcome) \<Rightarrow> account \<Rightarrow> view_state \<Rightarrow> view_state \<times> effect list" where
  "fetchTransfers net a v =
     (let (v1, fx1) = fetchTransfers_begin a v;
          (v2, fx2) = fetchTransfers_settle (net (url_toString (request_url a v))) v1
      in (v2, fx1 @ fx2))"

subsection \<open>The other handlers\<close>

text \<open>Line 85: \<open>onClick={() => disconnect()}\<close>.\<close>

definition onClick_disconnect :: "view_state \<Rightarrow> view_state \<times> effect list" where
  "onClick_disconnect v = (v, [WalletDisconnect])"

text \<open>Line 124: \<open>onClick={() => connect({ connector })}\<close>, for the connector with
  the given \<open>uid\<close>.\<close>

definition onClick_connect :: "string \<Rightarrow> view_state \<Rightarrow> view_state \<times> effect list" where
  "onClick_connect uid v = (v, [WalletConnect uid])"

text \<open>Lines 95, 103, 111: \<open>onChange={() => setFilter(...)}\<close>.\<close>

definition onChange_filter :: "filter_value \<Rightarrow> view_state \<Rightarrow> view_state \<times> effect list" where
  "onChange_filter f v = (setFilter f v, [])"

text \<open>Lines 169 and 178: the two updaters and the handlers that pass them. The new
  page is the double nearest to the exact difference or sum.\<close>

definition previous_page :: "pagination_state \<Rightarrow> pagination_state" where
  "previous_page prev = prev\<lparr>page := double_round (page prev - 1)\<rparr>"

definition next_page :: "pagination_state \<Rightarrow> pagination_state" where
  "next_page prev = prev\<lparr>page := double_round (page prev + 1)\<rparr>"

definition onClick_previous :: "view_state \<Rightarrow> view_state \<times> effect list" where
  "onClick_previous v = (setPagination_with previous_page v, [])"

definition onClick_next :: "view_state \<Rightarrow> view_state \<times> effect list" where
  "onClick_next v = (setPagination_with next_page v, [])"

text \<open>Line 157: the handler of the date cell of row \<open>i\<close>. There is no such cell, and
  so no handler, beyond the last row.\<close>

definition onClick_date :: "nat \<Rightarrow> view_state \<Rightarrow> view_state \<times> effect list" where
  "onClick_date i v =
     (if i < length (transfers v) then (setSelectedTransfer (Some (transfers v ! i)) v, [])
      else (v, []))"

text \<open>Line 220.\<close>

definition onClick_close :: "view_state \<Rightarrow> view_state \<times> effect list" where
  "onClick_close v = (setSelectedTransfer None v, [])"

subsection \<open>What is rendered (lines 69-229)\<close>

text \<open>
  The formatting of a date, \<open>new Date(ms).toLocaleString()\<close>, depends on the locale
  and the time zone of the browser: it is a parameter \<open>fmt\<close>, applied to the number
  handed to \<open>new Date\<close>.
\<close>

record table_row =
  cell_from :: string
  cell_to :: string
  cell_amount :: string
  cell_date :: string

record history_view =
  table_rows :: "table_row list"
  previous_disabled :: bool
  page_label :: "int \<times> int"
  next_disabled :: bool

record overlay_view =
  detail_from :: string
  detail_to :: string
  detail_amount :: string
  detail_date :: string

record screen =
  account_controls :: bool
  loading_shown :: bool
  error_shown :: "string option"
  history :: "history_view option"
  overlay :: "overlay_view option"

text \<open>Lines 151-161.\<close>

definition render_row :: "(int \<Rightarrow> string) \<Rightarrow> transfer \<Rightarrow> table_row" where
  "render_row fmt t =
     \<lparr>cell_from = from_addr t, cell_to = to_addr t, cell_amount = value_str t,
      cell_date = fmt (timestamp t)\<rparr>"

text \<open>Lines 138-182: the table and the pagination controls.\<close>

definition render_history :: "(int \<Rightarrow> string) \<Rightarrow> view_state \<Rightarrow> history_view" where
  "render_history fmt v =
     \<lparr>table_rows = map (render_row fmt) (transfers v),
      previous_disabled = (page (pagination v) \<le> 1),
      page_label = (page (pagination v), pages (pagination v)),
      next_disabled = (page (pagination v) \<ge> pages (pagination v))\<rparr>"

text \<open>Lines 206-218. \<open>new Date\<close> turns every time value beyond 8.64e15, which is
  below \<open>2^53\<close>, into the invalid date, and up to \<open>2^53\<close> the product is a double as
  it is: the formatter cannot tell the exact product from the rounded one.\<close>

definition render_overlay :: "(int \<Rightarrow> string) \<Rightarrow> transfer \<Rightarrow> overlay_view" where
  "render_overlay fmt t =
     \<lparr>detail_from = from_addr t, detail_to = to_addr t, detail_amount = value_str t,
      detail_date = fmt (timestamp t * 1000)\<rparr>"

text \<open>The conditional blocks: line 83 (\<open>account.status === 'connected'\<close>), line 134,
  line 135 (an empty string is falsy), line 136 and line 186.\<close>

definition render :: "(int \<Rightarrow> string) \<Rightarrow> account \<Rightarrow> view_state \<Rightarrow> screen" where
  "render fmt a v =
     \<lparr>account_controls = (status a = Connected),
      loading_shown = isLoading v,
      error_shown = (if fetchError v \<noteq> [] then Some (fetchError v) else None),
      history = (if length (transfers v) > 0 then Some (render_history fmt v) else None),
      overlay = map_option (render_overlay fmt) (selectedTransfer v)\<rparr>"

subsection \<open>Clicks, a constant network, and sample values\<close>

text \<open>A button with the \<open>disabled\<close> attribute set dispatches no click event, so its
  handler does not run.\<close>

definition click :: "bool \<Rightarrow> (view_state \<Rightarrow> view_state \<times> effect list) \<Rightarrow> view_state \<Rightarrow> view_state \<times> effect list" where
  "click disabled handler v = (if disabled then (v, []) else handler v)"

text \<open>A network that settles every request in the same way.\<close>

definition network_always :: "fetch_outcome \<Rightarrow> string \<Rightarrow> fetch_outcome" where
  "network_always outcome u = outcome"

definition example_account :: account where
  "example_account = \<lparr>status = Connected, address = Some ''0xabc'', chainId = Some 1\<rparr>"

definition example_transfer :: transfer where
  "example_transfer =
     \<lparr>from_addr = ''0xA'', to_addr = ''0xB'', value_str = ''100'', timestamp = 1000\<rparr>"

text \<open>A stand-in for the date formatting of the browser: it prints the number handed
  to \<open>new Date\<close>.\<close>

definition example_fmt :: "int \<Rightarrow> string" where
  "example_fmt ms = (if ms < 0 then CHR ''-'' # decimal (- ms) else decimal ms)"

definition example_view :: view_state where
  "example_view =
     \<lparr>transfers = [example_transfer],
      pagination = \<lparr>page = 2, limit = 10, total = 25, pages = 3\<rparr>,
      filter_sel = FilterIn, isLoading = False, fetchError = [], selectedTransfer = None\<rparr>"

text \<open>Two paginations as a server can send them, at \<open>2^53\<close> and \<open>2^53 + 2\<close> of
  \<open>2^53 + 2\<close> pages.\<close>

definition far_view :: view_state where
  "far_view =
     \<lparr>transfers = [example_transfer],
      pagination = \<lparr>page = 9007199254740992, limit = 10, total = 90071992547409936,
                    pages = 9007199254740994\<rparr>,
      filter_sel = FilterAll, isLoading = False, fetchError = [], selectedTransfer = None\<rparr>"

definition last_view :: view_state where
  "last_view =
     \<lparr>transfers = [example_transfer],
      pagination = \<lparr>page = 9007199254740994, limit = 10, total = 90071992547409936,
                    pages = 9007199254740994\<rparr>,
      filter_sel = FilterAll, isLoading = False, fetchError = [], selectedTransfer = None\<rparr>"

section \<open>Properties\<close>

subsection \<open>Auxiliary facts\<close>

lemma message_text_Message [simp]: "s \<noteq> [] \<Longrightarrow> message_text (Message s) = s"
  by (simp add: Message_inverse)

lemma message_text_not_empty: "message_text m \<noteq> []"
  using message_text [of m] by simp

lemma error_text_not_empty: "error_text e \<noteq> []"
  by (cases e) (simp_all add: message_text_not_empty)

lemma double_round_exact: "\<bar>x\<bar> \<le> 2 ^ 53 \<Longrightarrow> double_round x = x"
  by (simp add: double_round_def)

lemmas number_eval =
  number_toString_def positive_toString_def shortest_from.simps shortest_at_def
  double_round_def exponent_form_def decimal.simps digit_char_def bit_length.simps Let_def

lemmas setter_defs =
  setTransfers_def setPagination_def setPagination_with_def setFilter_def
  setIsLoading_def setFetchError_def setSelectedTransfer_def

lemma begin_state:
  "fst (fetchTransfers_begin a v) = v\<lparr>isLoading := True, fetchError := []\<rparr>"
  by (simp add: fetchTransfers_begin_def setter_defs)

lemma begin_effects:
  "snd (fetchTransfers_begin a v) = [HttpGet (url_toString (request_url a v))]"
  by (simp add: fetchTransfers_begin_def)

text \<open>The three ways the second half of an invocation can go.\<close>

lemma settle_thrown:
  "await_data outcome = Inl e \<Longrightarrow>
   fetchTransfers_settle outcome v =
     (v\<lparr>fetchError := error_text e, isLoading := False\<rparr>,
      [ConsoleError ''Failed to fetch transfers:'' e])"
  by (simp add: fetchTransfers_settle_def catch_clause_def setter_defs)

lemma settle_null:
  "await_data outcome = Inr BodyNull \<Longrightarrow>
   fetchTransfers_settle outcome v =
     (v\<lparr>fetchError := error_text null_property_error, isLoading := False\<rparr>,
      [ConsoleError ''Failed to fetch transfers:'' null_property_error])"
  by (simp add: fetchTransfers_settle_def store_data_def catch_clause_def setter_defs)

lemma settle_stored:
  "await_data outcome = Inr (BodyValue tf pf) \<Longrightarrow>
   fetchTransfers_settle outcome v =
     (v\<lparr>transfers := js_or tf [], pagination := js_or pf default_pagination,
        isLoading := False\<rparr>, [])"
  by (simp add: fetchTransfers_settle_def store_data_def setter_defs default_pagination_def)

lemma fetchTransfers_unfold:
  "fetchTransfers net a v =
     (fst (fetchTransfers_settle (net (url_toString (request_url a v)))
             (v\<lparr>isLoading := True, fetchError := []\<rparr>)),
      HttpGet (url_toString (request_url a v))
        # snd (fetchTransfers_settle (net (url_toString (request_url a v)))
                 (v\<lparr>isLoading := True, fetchError := []\<rparr>)))"
  by (simp add: fetchTransfers_def fetchTransfers_begin_def setter_defs split: prod.splits)

lemma isLoading_settle: "isLoading (fst (fetchTransfers_settle outcome v)) = False"
  by (simp add: fetchTransfers_settle_def setter_defs split: prod.splits)

lemma js_or_cases: "js_or p d = (case p of JsObject x \<Rightarrow> x | _ \<Rightarrow> d)"
  by (cases p) simp_all

lemma request_url_params:
  "searchParams (request_url a v) =
     [(''page'', number_toString (page (pagination v))),
      (''limit'', number_toString (limit (pagination v)))]
     @ (case filter_sel v of
          FilterAll \<Rightarrow> []
        | FilterIn \<Rightarrow> [(''type'', ''in'')]
        | FilterOut \<Rightarrow> [(''type'', ''out'')])"
  by (cases "filter_sel v") (simp_all add: request_url_def new_URL_def searchParams_set_def Let_def)

lemma request_url_base: "url_base (request_url a v) = transfers_endpoint a"
  by (simp add: request_url_def new_URL_def searchParams_set_def Let_def)

lemma example_numbers:
  "number_toString 2 = ''2''" "number_toString 10 = ''10''"
  "number_toString 1000000000000000000000 = ''1e+21''"
  by (simp_all add: number_eval)

lemma example_request:
  "url_toString (request_url example_account example_view) =
     ''http://localhost:3001/api/transfers/0xabc?page=2&limit=10&type=in''"
  by (simp add: request_url_def new_URL_def searchParams_set_def url_toString_def Let_def
      example_view_def example_account_def transfers_endpoint_def example_numbers
      urlencode_def urlencode_byte_def)

subsection \<open>Claims about fetchTransfers\<close>

text \<open>
  Claim C1, as amended. For every invocation of \<open>fetchTransfers\<close> whose response is 2xx
  and whose body parses as JSON to a value other than \<open>null\<close>, the transfer list is
  replaced by the body's \<open>transfers\<close> property, or by the empty list when that
  property is absent or falsy, and the pagination state by the body's \<open>pagination\<close>
  property, or by \<open>{page: 1, limit: 10, total: 0, pages: 1}\<close> when that is absent or
  falsy. No error is raised for a missing property: the error string is empty
  afterwards and the only effect is the request itself.
\<close>

theorem fetchTransfers_success_replaces:
  assumes "net (url_toString (request_url a v)) = FetchResolved True (JsonResolved (BodyValue tf pf))"
  shows "transfers (fst (fetchTransfers net a v)) = (case tf of JsObject ts \<Rightarrow> ts | _ \<Rightarrow> [])
       \<and> pagination (fst (fetchTransfers net a v)) =
           (case pf of JsObject p \<Rightarrow> p | _ \<Rightarrow> \<lparr>page = 1, limit = 10, total = 0, pages = 1\<rparr>)
       \<and> fetchError (fst (fetchTransfers net a v)) = []
       \<and> snd (fetchTransfers net a v) = [HttpGet (url_toString (request_url a v))]"
proof -
  have "await_data (net (url_toString (request_url a v))) = Inr (BodyValue tf pf)"
    using assms by simp
  from settle_stored [OF this] show ?thesis
    by (simp add: fetchTransfers_unfold js_or_cases default_pagination_def)
qed

text \<open>A body with two transfers and no \<open>pagination\<close> property, and a body whose
  \<open>transfers\<close> is \<open>null\<close>.\<close>

theorem fetchTransfers_success_replaces_witness:
  "transfers (fst (fetchTransfers
      (network_always (FetchResolved True (JsonResolved
          (BodyValue (JsObject [example_transfer, example_transfer]) JsUndefined))))
      example_account example_view)) = [example_transfer, example_transfer]
   \<and> pagination (fst (fetchTransfers
      (network_always (FetchResolved True (JsonResolved
          (BodyValue (JsObject [example_transfer, example_transfer]) JsUndefined))))
      example_account example_view)) = \<lparr>page = 1, limit = 10, total = 0, pages = 1\<rparr>
   \<and> transfers (fst (fetchTransfers
      (network_always (FetchResolved True (JsonResolved
          (BodyValue JsNull (JsObject \<lparr>page = 3, limit = 10, total = 25, pages = 3\<rparr>)))))
      example_account example_view)) = []
   \<and> pagination (fst (fetchTransfers
      (network_always (FetchResolved True (JsonResolved
          (BodyValue JsNull (JsObject \<lparr>page = 3, limit = 10, total = 25, pages = 3\<rparr>)))))
      example_account example_view)) = \<lparr>page = 3, limit = 10, total = 25, pages = 3\<rparr>"
  using fetchTransfers_success_replaces
    [of "network_always (FetchResolved True (JsonResolved
          (BodyValue (JsObject [example_transfer, example_transfer]) JsUndefined)))"
        example_account example_view "JsObject [example_transfer, example_transfer]" JsUndefined]
    fetchTransfers_success_replaces
    [of "network_always (FetchResolved True (JsonResolved
          (BodyValue JsNull (JsObject \<lparr>page = 3, limit = 10, total = 25, pages = 3\<rparr>))))"
        example_account example_view JsNull
        "JsObject \<lparr>page = 3, limit = 10, total = 25, pages = 3\<rparr>"]
  by (simp add: network_always_def)

text \<open>
  Claim C1 as stated fails on a 2xx response whose body is not JSON, and on one whose
  body is \<open>null\<close>: both end in the \<open>catch\<close> clause, the list shown before stays and an
  error string is set.
\<close>

theorem fetchTransfers_2xx_counterexample:
  "transfers (fst (fetchTransfers
      (network_always (FetchResolved True (JsonRejected (ErrorObject (Message ''Unexpected end of JSON input'')))))
      example_account example_view)) = [example_transfer]
   \<and> fetchError (fst (fetchTransfers
      (network_always (FetchResolved True (JsonRejected (ErrorObject (Message ''Unexpected end of JSON input'')))))
      example_account example_view)) = ''Unexpected end of JSON input''
   \<and> transfers (fst (fetchTransfers
      (network_always (FetchResolved True (JsonResolved BodyNull)))
      example_account example_view)) = [example_transfer]
   \<and> fetchError (fst (fetchTransfers
      (network_always (FetchResolved True (JsonResolved BodyNull)))
      example_account example_view)) \<noteq> []"
  by (simp add: fetchTransfers_unfold network_always_def settle_thrown settle_null
      error_text_not_empty message_text_Message example_view_def)

text \<open>
  Claim C2. For every invocation of \<open>fetchTransfers\<close> that fails (a non-2xx status, an
  error thrown by \<open>fetch\<close>, or an error thrown while the body is read), the transfer
  list and the pagination state are as before the call, and an error string that is
  not empty is rendered: the \<open>message\<close> of the thrown \<open>Error\<close>, \<open>Unknown error\<close>
  for a thrown value that is not one, and exactly \<open>Network response was not ok\<close> for
  every non-2xx response.
\<close>

theorem fetchTransfers_failure_keeps_data:
  "((net (url_toString (request_url a v)) = FetchResolved False j
      \<or> net (url_toString (request_url a v)) = FetchRejected e
      \<or> net (url_toString (request_url a v)) = FetchResolved True (JsonRejected e)) \<longrightarrow>
      transfers (fst (fetchTransfers net a v)) = transfers v
    \<and> pagination (fst (fetchTransfers net a v)) = pagination v
    \<and> fetchError (fst (fetchTransfers net a v)) \<noteq> []
    \<and> error_shown (render fmt a' (fst (fetchTransfers net a v)))
        = Some (fetchError (fst (fetchTransfers net a v))))
 \<and> (net (url_toString (request_url a v)) = FetchResolved False j \<longrightarrow>
      fetchError (fst (fetchTransfers net a v)) = ''Network response was not ok'')
 \<and> (net (url_toString (request_url a v)) = FetchRejected e
      \<or> net (url_toString (request_url a v)) = FetchResolved True (JsonRejected e) \<longrightarrow>
      fetchError (fst (fetchTransfers net a v)) = error_text e)"
proof -
  have thrown: "transfers (fst (fetchTransfers net a v)) = transfers v
      \<and> pagination (fst (fetchTransfers net a v)) = pagination v
      \<and> fetchError (fst (fetchTransfers net a v)) = error_text x
      \<and> error_shown (render fmt a' (fst (fetchTransfers net a v))) = Some (error_text x)"
    if "await_data (net (url_toString (request_url a v))) = Inl x" for x
    using settle_thrown [OF that]
    by (simp add: fetchTransfers_unfold render_def error_text_not_empty)
  have not_ok: "await_data (FetchResolved False j)
      = Inl (ErrorObject (Message ''Network response was not ok''))"
    by simp
  have rejected: "await_data (FetchRejected e) = Inl e"
    "await_data (FetchResolved True (JsonRejected e)) = Inl e"
    by simp_all
  show ?thesis
    using thrown [of "ErrorObject (Message ''Network response was not ok'')"] thrown [of e]
      not_ok rejected error_text_not_empty [of e]
    by (auto simp add: message_text_Message)
qed

text \<open>A response with status 500 (its body is never read), a rejected \<open>fetch\<close>, a
  thrown value that is not an \<open>Error\<close>, and a body that cannot be read.\<close>

theorem fetchTransfers_failure_keeps_data_witness:
  "transfers (fst (fetchTransfers (network_always (FetchResolved False (JsonResolved BodyNull)))
      example_account example_view)) = [example_transfer]
   \<and> pagination (fst (fetchTransfers (network_always (FetchResolved False (JsonResolved BodyNull)))
      example_account example_view)) = \<lparr>page = 2, limit = 10, total = 25, pages = 3\<rparr>
   \<and> error_shown (render example_fmt example_account
       (fst (fetchTransfers (network_always (FetchResolved False (JsonResolved BodyNull)))
          example_account example_view))) = Some ''Network response was not ok''
   \<and> transfers (fst (fetchTransfers
        (network_always (FetchRejected (ErrorObject (Message ''Failed to fetch''))))
        example_account example_view)) = [example_transfer]
   \<and> error_shown (render example_fmt example_account
       (fst (fetchTransfers
          (network_always (FetchRejected (ErrorObject (Message ''Failed to fetch''))))
          example_account example_view))) = Some ''Failed to fetch''
   \<and> error_shown (render example_fmt example_account
       (fst (fetchTransfers (network_always (FetchRejected NonError))
          example_account example_view))) = Some ''Unknown error''
   \<and> transfers (fst (fetchTransfers
        (network_always (FetchResolved True (JsonRejected (ErrorObject (Message ''Load failed'')))))
        example_account example_view)) = [example_transfer]
   \<and> error_shown (render example_fmt example_account
       (fst (fetchTransfers
          (network_always (FetchResolved True (JsonRejected (ErrorObject (Message ''Load failed'')))))
          example_account example_view))) = Some ''Load failed''"
  using fetchTransfers_failure_keeps_data
    [of "network_always (FetchResolved False (JsonResolved BodyNull))" example_account example_view
        "JsonResolved BodyNull" NonError example_fmt example_account]
    fetchTransfers_failure_keeps_data
    [of "network_always (FetchRejected (ErrorObject (Message ''Failed to fetch'')))"
        example_account example_view "JsonResolved BodyNull"
        "ErrorObject (Message ''Failed to fetch'')" example_fmt example_account]
    fetchTransfers_failure_keeps_data
    [of "network_always (FetchRejected NonError)" example_account
        example_view "JsonResolved BodyNull" NonError example_fmt example_account]
    fetchTransfers_failure_keeps_data
    [of "network_always (FetchResolved True (JsonRejected (ErrorObject (Message ''Load failed''))))"
        example_account example_view "JsonResolved BodyNull"
        "ErrorObject (Message ''Load failed'')" example_fmt example_account]
  by (simp add: network_always_def example_view_def message_text_Message)

text \<open>
  Claim C3. Every invocation of \<open>fetchTransfers\<close> sets the loading flag at its start
  and clears it when it settles, whatever the outcome (success, non-2xx response,
  JSON parse failure, network error): after the invocation the flag is false and the
  loading line is not rendered.
\<close>

theorem loading_flag_released:
  "isLoading (fst (fetchTransfers_begin a v)) = True
   \<and> loading_shown (render fmt a (fst (fetchTransfers_begin a v))) = True
   \<and> isLoading (fst (fetchTransfers_settle outcome v')) = False
   \<and> isLoading (fst (fetchTransfers net a v)) = False
   \<and> loading_shown (render fmt a (fst (fetchTransfers net a v))) = False"
  by (simp add: begin_state isLoading_settle fetchTransfers_unfold render_def)

text \<open>The four exit paths, one outcome each.\<close>

theorem loading_flag_released_witness:
  "isLoading (fst (fetchTransfers_begin example_account example_view)) = True
   \<and> isLoading (fst (fetchTransfers_settle
        (FetchResolved True (JsonResolved (BodyValue JsUndefined JsUndefined)))
        (fst (fetchTransfers_begin example_account example_view)))) = False
   \<and> isLoading (fst (fetchTransfers_settle (FetchResolved False (JsonResolved BodyNull))
        (fst (fetchTransfers_begin example_account example_view)))) = False
   \<and> isLoading (fst (fetchTransfers_settle (FetchResolved True (JsonRejected NonError))
        (fst (fetchTransfers_begin example_account example_view)))) = False
   \<and> isLoading (fst (fetchTransfers_settle (FetchRejected (ErrorObject (Message ''Failed to fetch'')))
        (fst (fetchTransfers_begin example_account example_view)))) = False"
  using loading_flag_released
    [of example_account example_view example_fmt
        "FetchResolved True (JsonResolved (BodyValue JsUndefined JsUndefined))"
        "fst (fetchTransfers_begin example_account example_view)"
        "network_always (FetchRejected NonError)"]
    loading_flag_released
    [of example_account example_view example_fmt
        "FetchResolved False (JsonResolved BodyNull)"
        "fst (fetchTransfers_begin example_account example_view)"
        "network_always (FetchRejected NonError)"]
    loading_flag_released
    [of example_account example_view example_fmt
        "FetchResolved True (JsonRejected NonError)"
        "fst (fetchTransfers_begin example_account example_view)"
        "network_always (FetchRejected NonError)"]
    loading_flag_released
    [of example_account example_view example_fmt
        "FetchRejected (ErrorObject (Message ''Failed to fetch''))"
        "fst (fetchTransfers_begin example_account example_view)"
        "network_always (FetchRejected NonError)"]
  by blast

text \<open>
  Claim C4. For every pagination state and filter, the URL that \<open>fetchTransfers\<close>
  requests carries \<open>page\<close> and \<open>limit\<close> from the current pagination state, and
  carries \<open>type\<close>, with the filter's value \<open>in\<close> or \<open>out\<close>, exactly when the
  filter is not \<open>all\<close>.
\<close>

theorem fetchTransfers_query:
  "searchParams_get ''page'' (request_url a v) = Some (number_toString (page (pagination v)))
   \<and> searchParams_get ''limit'' (request_url a v) = Some (number_toString (limit (pagination v)))
   \<and> searchParams_get ''type'' (request_url a v) =
       (case filter_sel v of FilterAll \<Rightarrow> None | FilterIn \<Rightarrow> Some ''in'' | FilterOut \<Rightarrow> Some ''out'')
   \<and> map fst (searchParams (request_url a v)) =
       (if filter_sel v = FilterAll then [''page'', ''limit''] else [''page'', ''limit'', ''type''])
   \<and> url_base (request_url a v) = transfers_endpoint a
   \<and> snd (fetchTransfers_begin a v) = [HttpGet (url_toString (request_url a v))]"
  by (cases "filter_sel v")
    (simp_all add: searchParams_get_def request_url_params request_url_base begin_effects)

theorem fetchTransfers_query_witness:
  "searchParams_get ''page'' (request_url example_account example_view) = Some ''2''
   \<and> searchParams_get ''limit'' (request_url example_account example_view) = Some ''10''
   \<and> searchParams_get ''type'' (request_url example_account example_view) = Some ''in''
   \<and> searchParams_get ''type''
        (request_url example_account (example_view\<lparr>filter_sel := FilterAll\<rparr>)) = None
   \<and> searchParams_get ''page''
        (request_url example_account
           (example_view\<lparr>pagination :=
              \<lparr>page = 1000000000000000000000, limit = 10, total = 0, pages = 1\<rparr>\<rparr>)) = Some ''1e+21''
   \<and> snd (fetchTransfers_begin example_account example_view) =
       [HttpGet ''http://localhost:3001/api/transfers/0xabc?page=2&limit=10&type=in'']"
  using fetchTransfers_query [of example_account example_view]
    fetchTransfers_query [of example_account "example_view\<lparr>filter_sel := FilterAll\<rparr>"]
    fetchTransfers_query [of example_account
      "example_view\<lparr>pagination :=
         \<lparr>page = 1000000000000000000000, limit = 10, total = 0, pages = 1\<rparr>\<rparr>"]
  by (simp add: example_view_def example_numbers example_request [unfolded example_view_def])

text \<open>
  Claim C10. Every invocation of \<open>fetchTransfers\<close> empties the error string at its
  start, together with issuing the request, so the error of an earlier attempt is gone
  from then on; a successful fetch, also one that follows a failed one, leaves the
  error string empty and no error line rendered.
\<close>

theorem fetchError_reset:
  "fetchError (fst (fetchTransfers_begin a v)) = []
   \<and> error_shown (render fmt a (fst (fetchTransfers_begin a v))) = None
   \<and> (net (url_toString (request_url a v)) = FetchResolved True (JsonResolved (BodyValue tf pf)) \<longrightarrow>
        fetchError (fst (fetchTransfers net a v)) = []
      \<and> error_shown (render fmt a (fst (fetchTransfers net a v))) = None)"
proof -
  have "fetchTransfers_settle (FetchResolved True (JsonResolved (BodyValue tf pf))) s =
      (s\<lparr>transfers := js_or tf [], pagination := js_or pf default_pagination,
         isLoading := False\<rparr>, [])" for s
    by (rule settle_stored) simp
  then show ?thesis
    by (simp add: begin_state fetchTransfers_unfold render_def)
qed

text \<open>A fetch that fails with status 500, then one that succeeds.\<close>

theorem fetchError_reset_witness:
  "fetchError (fst (fetchTransfers (network_always (FetchResolved False (JsonResolved BodyNull)))
      example_account example_view)) = ''Network response was not ok''
   \<and> fetchError (fst (fetchTransfers_begin example_account
        (fst (fetchTransfers (network_always (FetchResolved False (JsonResolved BodyNull)))
           example_account example_view)))) = []
   \<and> fetchError (fst (fetchTransfers
        (network_always (FetchResolved True (JsonResolved (BodyValue (JsObject []) JsUndefined))))
        example_account
        (fst (fetchTransfers (network_always (FetchResolved False (JsonResolved BodyNull)))
           example_account example_view)))) = []"
  using fetchError_reset
    [of example_account
        "fst (fetchTransfers (network_always (FetchResolved False (JsonResolved BodyNull)))
           example_account example_view)"
        example_fmt
        "network_always (FetchResolved True (JsonResolved (BodyValue (JsObject []) JsUndefined)))"
        "JsObject []" JsUndefined]
  by (simp add: network_always_def fetchTransfers_unfold settle_thrown)


subsection \<open>Claims about the rendered controls and the other handlers\<close>

text \<open>
  Claim C5. Whenever the pagination controls are rendered, the Previous button is
  disabled if and only if \<open>pagination.page <= 1\<close>, and the Next button is disabled if
  and only if \<open>pagination.page >= pagination.pages\<close>.
\<close>

theorem pagination_buttons_disabled:
  assumes "history (render fmt a v) = Some h"
  shows "previous_disabled h = (page (pagination v) \<le> 1)
       \<and> next_disabled h = (page (pagination v) \<ge> pages (pagination v))"
  using assms by (auto simp add: render_def render_history_def split: if_splits)

text \<open>On page 2 of 3 both buttons are enabled; on the only page of the default
  pagination both are disabled.\<close>

theorem pagination_buttons_disabled_witness:
  "history (render example_fmt example_account example_view)
     = Some (render_history example_fmt example_view)
   \<and> previous_disabled (render_history example_fmt example_view) = False
   \<and> next_disabled (render_history example_fmt example_view) = False
   \<and> previous_disabled (render_history example_fmt
        (example_view\<lparr>pagination := default_pagination\<rparr>)) = True
   \<and> next_disabled (render_history example_fmt
        (example_view\<lparr>pagination := default_pagination\<rparr>)) = True"
proof -
  have h: "history (render example_fmt example_account example_view)
     = Some (render_history example_fmt example_view)"
    by (simp add: render_def example_view_def)
  have h': "history (render example_fmt example_account
        (example_view\<lparr>pagination := default_pagination\<rparr>))
     = Some (render_history example_fmt (example_view\<lparr>pagination := default_pagination\<rparr>))"
    by (simp add: render_def example_view_def)
  from pagination_buttons_disabled [OF h] pagination_buttons_disabled [OF h'] show ?thesis
    using h by (simp add: example_view_def default_pagination_def)
qed

text \<open>
  Claim C6. The date cell of a table row is rendered from \<open>timestamp\<close> as it is, while
  the overlay opened by clicking that cell renders the date from \<open>timestamp * 1000\<close>;
  the overlay also shows that row's \<open>from\<close>, \<open>to\<close> and \<open>value\<close>, and Close clears the
  selected record, which removes the overlay.
\<close>

theorem date_cell_and_overlay:
  assumes "i < length (transfers v)"
  shows "map_option (\<lambda>h. cell_date (table_rows h ! i)) (history (render fmt a v))
           = Some (fmt (timestamp (transfers v ! i)))
       \<and> overlay (render fmt a (fst (onClick_date i v)))
           = Some \<lparr>detail_from = from_addr (transfers v ! i),
                   detail_to = to_addr (transfers v ! i),
                   detail_amount = value_str (transfers v ! i),
                   detail_date = fmt (timestamp (transfers v ! i) * 1000)\<rparr>
       \<and> selectedTransfer (fst (onClick_close (fst (onClick_date i v)))) = None
       \<and> overlay (render fmt a (fst (onClick_close (fst (onClick_date i v))))) = None"
proof -
  from assms have "transfers v \<noteq> []" by auto
  with assms show ?thesis
    by (simp add: render_def render_history_def render_row_def render_overlay_def
        onClick_date_def onClick_close_def setter_defs)
qed

text \<open>With a formatter that prints the number handed to \<open>new Date\<close>, the row of the
  sample transfer shows 1000 and its overlay 1000000.\<close>

theorem date_cell_and_overlay_witness:
  "map_option (\<lambda>h. cell_date (table_rows h ! 0))
      (history (render example_fmt example_account example_view)) = Some ''1000''
   \<and> overlay (render example_fmt example_account (fst (onClick_date 0 example_view)))
       = Some \<lparr>detail_from = ''0xA'', detail_to = ''0xB'', detail_amount = ''100'',
               detail_date = ''1000000''\<rparr>
   \<and> overlay (render example_fmt example_account
        (fst (onClick_close (fst (onClick_date 0 example_view))))) = None"
proof -
  have len: "0 < length (transfers example_view)"
    by (simp add: example_view_def)
  have n1: "example_fmt 1000 = ''1000''"
    by (simp add: example_fmt_def decimal.simps digit_char_def)
  have n2: "example_fmt 1000000 = ''1000000''"
    by (simp add: example_fmt_def decimal.simps digit_char_def)
  have t: "transfers example_view ! 0 = example_transfer"
    by (simp add: example_view_def)
  from date_cell_and_overlay [OF len, of example_fmt example_account] show ?thesis
    by (simp add: t example_transfer_def n1 n2)
qed

text \<open>
  Claim C7. Selecting a filter changes only the filter: for each of the three
  selections the transfer list, the pagination, the loading flag, the error string and
  the selected record are as before, nothing rendered changes, and no request is
  issued.
\<close>

theorem setFilter_frame:
  "fst (onChange_filter f v) = v\<lparr>filter_sel := f\<rparr>
   \<and> snd (onChange_filter f v) = []
   \<and> transfers (fst (onChange_filter f v)) = transfers v
   \<and> pagination (fst (onChange_filter f v)) = pagination v
   \<and> isLoading (fst (onChange_filter f v)) = isLoading v
   \<and> fetchError (fst (onChange_filter f v)) = fetchError v
   \<and> selectedTransfer (fst (onChange_filter f v)) = selectedTransfer v
   \<and> render fmt a (fst (onChange_filter f v)) = render fmt a v"
  by (simp add: onChange_filter_def setter_defs render_def render_history_def)

theorem setFilter_frame_witness:
  "fst (onChange_filter FilterOut example_view) = example_view\<lparr>filter_sel := FilterOut\<rparr>
   \<and> snd (onChange_filter FilterOut example_view) = []
   \<and> transfers (fst (onChange_filter FilterOut example_view)) = [example_transfer]"
  using setFilter_frame [of FilterOut example_view example_fmt example_account]
  by (simp add: example_view_def)

text \<open>
  Claim C8, as amended. Previous and Next leave \<open>limit\<close>, \<open>total\<close>, \<open>pages\<close> and
  the transfer list as they are and issue no request. For every page of magnitude
  below \<open>2^53\<close> they change \<open>pagination.page\<close> by exactly -1 and +1, and the update
  does not clamp: run at the first page it goes below 1, run at the last page it goes
  beyond \<open>pages\<close>. Only the disabled condition of the button keeps a click within the
  range.
\<close>

theorem page_buttons_frame:
  "limit (pagination (fst (onClick_previous v))) = limit (pagination v)
   \<and> total (pagination (fst (onClick_previous v))) = total (pagination v)
   \<and> pages (pagination (fst (onClick_previous v))) = pages (pagination v)
   \<and> limit (pagination (fst (onClick_next v))) = limit (pagination v)
   \<and> total (pagination (fst (onClick_next v))) = total (pagination v)
   \<and> pages (pagination (fst (onClick_next v))) = pages (pagination v)
   \<and> transfers (fst (onClick_previous v)) = transfers v
   \<and> transfers (fst (onClick_next v)) = transfers v
   \<and> snd (onClick_previous v) = [] \<and> snd (onClick_next v) = []
   \<and> (\<bar>page (pagination v)\<bar> < 2 ^ 53 \<longrightarrow>
        page (pagination (fst (onClick_previous v))) = page (pagination v) - 1
      \<and> page (pagination (fst (onClick_next v))) = page (pagination v) + 1
      \<and> fst (onClick_previous v) = v\<lparr>pagination := (pagination v)\<lparr>page := page (pagination v) - 1\<rparr>\<rparr>
      \<and> fst (onClick_next v) = v\<lparr>pagination := (pagination v)\<lparr>page := page (pagination v) + 1\<rparr>\<rparr>
      \<and> (page (pagination v) \<le> 1 \<longrightarrow> page (pagination (fst (onClick_previous v))) < 1)
      \<and> (page (pagination v) \<ge> pages (pagination v) \<longrightarrow>
           page (pagination (fst (onClick_next v))) > pages (pagination (fst (onClick_next v))))
      \<and> (1 \<le> page (pagination v) \<longrightarrow>
           1 \<le> page (pagination (fst (click (previous_disabled (render_history fmt v))
                   onClick_previous v))))
      \<and> (page (pagination v) \<le> pages (pagination v) \<longrightarrow>
           page (pagination (fst (click (next_disabled (render_history fmt v)) onClick_next v)))
             \<le> pages (pagination v)))"
proof -
  have frame: "limit (pagination (fst (onClick_previous v))) = limit (pagination v)
      \<and> total (pagination (fst (onClick_previous v))) = total (pagination v)
      \<and> pages (pagination (fst (onClick_previous v))) = pages (pagination v)
      \<and> limit (pagination (fst (onClick_next v))) = limit (pagination v)
      \<and> total (pagination (fst (onClick_next v))) = total (pagination v)
      \<and> pages (pagination (fst (onClick_next v))) = pages (pagination v)
      \<and> transfers (fst (onClick_previous v)) = transfers v
      \<and> transfers (fst (onClick_next v)) = transfers v
      \<and> snd (onClick_previous v) = [] \<and> snd (onClick_next v) = []"
    by (simp add: onClick_previous_def onClick_next_def previous_page_def next_page_def
        setter_defs)
  have exact: "double_round (page (pagination v) - 1) = page (pagination v) - 1
      \<and> double_round (page (pagination v) + 1) = page (pagination v) + 1"
    if "\<bar>page (pagination v)\<bar> < 2 ^ 53"
  proof -
    from that have "\<bar>page (pagination v) - 1\<bar> \<le> 2 ^ 53" "\<bar>page (pagination v) + 1\<bar> \<le> 2 ^ 53"
      by linarith+
    then show ?thesis by (simp add: double_round_exact)
  qed
  have steps: "page (pagination (fst (onClick_previous v))) = page (pagination v) - 1
      \<and> page (pagination (fst (onClick_next v))) = page (pagination v) + 1
      \<and> fst (onClick_previous v) = v\<lparr>pagination := (pagination v)\<lparr>page := page (pagination v) - 1\<rparr>\<rparr>
      \<and> fst (onClick_next v) = v\<lparr>pagination := (pagination v)\<lparr>page := page (pagination v) + 1\<rparr>\<rparr>
      \<and> (page (pagination v) \<le> 1 \<longrightarrow> page (pagination (fst (onClick_previous v))) < 1)
      \<and> (page (pagination v) \<ge> pages (pagination v) \<longrightarrow>
           page (pagination (fst (onClick_next v))) > pages (pagination (fst (onClick_next v))))
      \<and> (1 \<le> page (pagination v) \<longrightarrow>
           1 \<le> page (pagination (fst (click (previous_disabled (render_history fmt v))
                   onClick_previous v))))
      \<and> (page (pagination v) \<le> pages (pagination v) \<longrightarrow>
           page (pagination (fst (click (next_disabled (render_history fmt v)) onClick_next v)))
             \<le> pages (pagination v))"
    if "\<bar>page (pagination v)\<bar> < 2 ^ 53"
    using exact [OF that]
    by (simp add: onClick_previous_def onClick_next_def previous_page_def next_page_def
        setter_defs click_def render_history_def)
  from frame steps show ?thesis by blast
qed

text \<open>From page 2 of 3 the handlers reach pages 1 and 3; from the first and only page
  of the default pagination the handlers themselves reach pages 0 and 2, while a click
  on the disabled buttons stays on page 1.\<close>

theorem page_buttons_frame_witness:
  "page (pagination (fst (onClick_previous example_view))) = 1
   \<and> page (pagination (fst (onClick_next example_view))) = 3
   \<and> page (pagination (fst (onClick_previous (example_view\<lparr>pagination := default_pagination\<rparr>)))) = 0
   \<and> page (pagination (fst (onClick_next (example_view\<lparr>pagination := default_pagination\<rparr>)))) = 2
   \<and> page (pagination (fst (click
        (previous_disabled (render_history example_fmt
           (example_view\<lparr>pagination := default_pagination\<rparr>)))
        onClick_previous (example_view\<lparr>pagination := default_pagination\<rparr>)))) \<ge> 1
   \<and> page (pagination (fst (click
        (next_disabled (render_history example_fmt
           (example_view\<lparr>pagination := default_pagination\<rparr>)))
        onClick_next (example_view\<lparr>pagination := default_pagination\<rparr>)))) \<le> 1"
proof -
  have e: "page (pagination example_view) = 2"
    by (simp add: example_view_def)
  have e': "page (pagination (example_view\<lparr>pagination := default_pagination\<rparr>)) = 1"
    "pages (pagination (example_view\<lparr>pagination := default_pagination\<rparr>)) = 1"
    by (simp_all add: default_pagination_def)
  have s: "\<bar>page (pagination example_view)\<bar> < 2 ^ 53"
    "\<bar>page (pagination (example_view\<lparr>pagination := default_pagination\<rparr>))\<bar> < 2 ^ 53"
    unfolding e e' by simp_all
  note f = page_buttons_frame [of example_view example_fmt]
  note g = page_buttons_frame [of "example_view\<lparr>pagination := default_pagination\<rparr>" example_fmt]
  have "page (pagination (fst (onClick_previous example_view))) = 1"
    and "page (pagination (fst (onClick_next example_view))) = 3"
    using f e s(1) by simp_all
  moreover have "page (pagination (fst (onClick_previous (example_view\<lparr>pagination := default_pagination\<rparr>)))) = 0"
    and "page (pagination (fst (onClick_next (example_view\<lparr>pagination := default_pagination\<rparr>)))) = 2"
    using g e' s(2) by linarith+
  moreover have "page (pagination (fst (click
        (previous_disabled (render_history example_fmt
           (example_view\<lparr>pagination := default_pagination\<rparr>)))
        onClick_previous (example_view\<lparr>pagination := default_pagination\<rparr>)))) \<ge> 1"
    and "page (pagination (fst (click
        (next_disabled (render_history example_fmt
           (example_view\<lparr>pagination := default_pagination\<rparr>)))
        onClick_next (example_view\<lparr>pagination := default_pagination\<rparr>)))) \<le> 1"
    using g e' s(2) by linarith+
  ultimately show ?thesis by blast
qed

text \<open>
  Claim C8 as stated fails from \<open>2^53\<close> on. On page \<open>2^53\<close> of \<open>2^53 + 2\<close> Next is
  enabled and its click leaves the page where it is, since \<open>2^53 + 1\<close> is no double and
  rounds back; on page \<open>2^53 + 2\<close> Previous is enabled and its click goes back by two.
\<close>

theorem page_buttons_rounding_counterexample:
  "next_disabled (render_history example_fmt far_view) = False
   \<and> page (pagination far_view) = 9007199254740992
   \<and> page (pagination (fst (onClick_next far_view))) = 9007199254740992
   \<and> previous_disabled (render_history example_fmt last_view) = False
   \<and> page (pagination last_view) = 9007199254740994
   \<and> page (pagination (fst (onClick_previous last_view))) = 9007199254740992"
  by (simp add: render_history_def far_view_def last_view_def onClick_next_def
      onClick_previous_def next_page_def previous_page_def setter_defs
      double_round_def bit_length.simps)

text \<open>
  Claim C9. Disconnecting only calls the wallet connector: the transfer list, the
  pagination, the filter, the selected record, the loading flag and the error string
  are all as before, so whatever the account has become, the table, the overlay, the
  loading line and the error line are rendered as they were.
\<close>

theorem disconnect_keeps_view:
  "fst (onClick_disconnect v) = v
   \<and> snd (onClick_disconnect v) = [WalletDisconnect]
   \<and> history (render fmt a' (fst (onClick_disconnect v))) = history (render fmt a v)
   \<and> overlay (render fmt a' (fst (onClick_disconnect v))) = overlay (render fmt a v)
   \<and> loading_shown (render fmt a' (fst (onClick_disconnect v))) = loading_shown (render fmt a v)
   \<and> error_shown (render fmt a' (fst (onClick_disconnect v))) = error_shown (render fmt a v)"
  by (simp add: onClick_disconnect_def render_def)

text \<open>The table of the sample view is still rendered for an account that is no longer
  connected.\<close>

theorem disconnect_keeps_view_witness:
  "fst (onClick_disconnect example_view) = example_view
   \<and> snd (onClick_disconnect example_view) = [WalletDisconnect]
   \<and> history (render example_fmt
        \<lparr>status = Disconnected, address = None, chainId = None\<rparr>
        (fst (onClick_disconnect example_view)))
       = Some (render_history example_fmt example_view)"
proof -
  have h: "history (render example_fmt example_account example_view)
     = Some (render_history example_fmt example_view)"
    by (simp add: render_def example_view_def)
  note d = disconnect_keeps_view
      [of example_view example_fmt "\<lparr>status = Disconnected, address = None, chainId = None\<rparr>"
          example_account]
  from d have "fst (onClick_disconnect example_view) = example_view"
    and "snd (onClick_disconnect example_view) = [WalletDisconnect]"
    and "history (render example_fmt
        \<lparr>status = Disconnected, address = None, chainId = None\<rparr>
        (fst (onClick_disconnect example_view)))
       = history (render example_fmt example_account example_view)"
    by blast+
  with h show ?thesis by (simp only: simp_thms)
qed


end
